theory Spec2Isabelle
  imports Complex_Main "HOL-Library.Sublist"
begin

section \<open>Python values the workflow passes around\<close>

text \<open>
  An exception object is its class name and its message (what \<^verbatim>\<open>str(e)\<close> gives).
  Only subclasses of \<^verbatim>\<open>Exception\<close> are modelled: they are what
  \<^verbatim>\<open>except Exception\<close> catches.
\<close>

datatype exn = Exn (exn_class: string) (exn_str: string)

text \<open>Structured data (what a JSON document parses to). A dict keeps its insertion order.\<close>

datatype json =
    JNull
  | JBool bool
  | JNum real
  | JStr string
  | JArr "json list"
  | JObj "(string \<times> json) list"

type_synonym dict = "(string \<times> json) list"

text \<open>Python truthiness of a value, as \<^verbatim>\<open>if x:\<close> reads it.\<close>

fun truthy :: "json \<Rightarrow> bool" where
  "truthy JNull = False"
| "truthy (JBool b) = b"
| "truthy (JNum x) = (x \<noteq> 0)"
| "truthy (JStr s) = (s \<noteq> [])"
| "truthy (JArr xs) = (xs \<noteq> [])"
| "truthy (JObj kvs) = (kvs \<noteq> [])"

section \<open>Strings: \<^verbatim>\<open>isdigit\<close>, \<^verbatim>\<open>lower\<close>, \<^verbatim>\<open>in\<close>\<close>

text \<open>
  A query is a list of characters with code points below 256. On that range Python's
  \<^verbatim>\<open>str.isdigit\<close> holds for \<^verbatim>\<open>0\<close> to \<^verbatim>\<open>9\<close> and for the
  superscript digits U+00B2, U+00B3 and U+00B9, and \<^verbatim>\<open>str.lower\<close> moves
  \<^verbatim>\<open>A\<close> to \<^verbatim>\<open>Z\<close> and U+00C0 to U+00DE (U+00D7 apart) up by 32.
\<close>

definition isdigit :: "char \<Rightarrow> bool" where
  "isdigit c =
     (let n = (of_char c :: nat)
      in (48 \<le> n \<and> n \<le> 57) \<or> n = 178 \<or> n = 179 \<or> n = 185)"

definition lower_char :: "char \<Rightarrow> char" where
  "lower_char c =
     (let n = (of_char c :: nat)
      in if (65 \<le> n \<and> n \<le> 90) \<or> (192 \<le> n \<and> n \<le> 222 \<and> n \<noteq> 215)
         then char_of (n + 32) else c)"

definition lower :: "string \<Rightarrow> string" where
  "lower s = map lower_char s"

text \<open>\<^verbatim>\<open>sub in s\<close>: some suffix of \<open>s\<close> starts with \<open>sub\<close>.\<close>

fun contains :: "string \<Rightarrow> string \<Rightarrow> bool" where
  "contains sub [] = (sub = [])"
| "contains sub (c # cs) = (prefix sub (c # cs) \<or> contains sub cs)"

section \<open>The calculation engine (app/tools/simulator.py)\<close>

text \<open>
  Python floats are read as real numbers. The branch for a negative flow rate compares
  and returns, and is exact. In the other branch rounding to the nearest double is not
  modelled, nor a product that silently becomes \<^verbatim>\<open>inf\<close>; the one float
  operation there that raises is modelled: \<^verbatim>\<open>velocity**2\<close> raises OverflowError
  when the square leaves the range of a double. \<^verbatim>\<open>round(x, 2)\<close> is the nearest
  multiple of 0.01.
\<close>

record simulation_result =
  input_flow_rate :: real
  estimated_pressure_psi :: real
  status :: string
  warning :: "string option"

definition float_max :: real where
  "float_max = (2 - 1 / 2 ^ 52) * 2 ^ 1023"

definition round2 :: "real \<Rightarrow> real" where
  "round2 x = real_of_int (round (x * 100)) / 100"

definition calc_pressure_flow :: "real \<Rightarrow> real \<Rightarrow> exn + simulation_result" where
  "calc_pressure_flow flow_rate viscosity =
     (if flow_rate < 0 then
        Inr \<lparr>input_flow_rate = flow_rate,
             estimated_pressure_psi = 0.0,
             status = ''ERROR'',
             warning = Some ''Flow rate cannot be negative.''\<rparr>
      else
        let FRICTION_FACTOR = 0.02;
            PIPE_DIAMETER_M = 0.1;
            FLUID_DENSITY_KG_M3 = 850;
            area = pi * (PIPE_DIAMETER_M / 2) ^ 2;
            velocity = flow_rate / (area * 3600)
        in if velocity ^ 2 > float_max
           then Inl (Exn ''OverflowError'' ''(34, 'Numerical result out of range')'')
           else
             let delta_p_pascal =
                   FRICTION_FACTOR * (1 / PIPE_DIAMETER_M)
                     * (0.5 * FLUID_DENSITY_KG_M3 * velocity ^ 2);
                 delta_p_psi = delta_p_pascal * 0.000145038;
                 TOTAL_PRESSURE_PSI = 1000 + delta_p_psi
             in Inr \<lparr>input_flow_rate = flow_rate,
                     estimated_pressure_psi = round2 TOTAL_PRESSURE_PSI,
                     status = (if TOTAL_PRESSURE_PSI > 1200
                               then ''HIGH_PRESSURE_WARNING'' else ''NOMINAL''),
                     warning = (if TOTAL_PRESSURE_PSI > 1200
                                then Some ''Approaching relief valve threshold.''
                                else None)\<rparr>)"

text \<open>The default of the second parameter: \<^verbatim>\<open>viscosity: float = 0.9\<close>.\<close>

definition default_viscosity :: real where
  "default_viscosity = 0.9"

section \<open>The knowledge lookup (app/tools/retriever.py)\<close>

text \<open>
  The vector store is outside the repository. It is a parameter: building the
  \<^verbatim>\<open>KnowledgeRetriever\<close> either raises or gives the search function, which
  itself raises or returns the page contents of the documents found.
\<close>

type_synonym vector_store = "exn + (string \<Rightarrow> exn + string list)"

fun join :: "string \<Rightarrow> string list \<Rightarrow> string" where
  "join sep [] = []"
| "join sep [x] = x"
| "join sep (x # y # ys) = x @ sep @ join sep (y # ys)"

definition retrieve :: "(string \<Rightarrow> exn + string list) \<Rightarrow> string \<Rightarrow> string" where
  "retrieve invoke query =
     (case invoke query of
        Inl e \<Rightarrow> ''Error retrieving data: '' @ exn_str e
      | Inr docs \<Rightarrow>
          if docs = [] then ''No relevant manuals found.''
          else join [CHR 0x0A, CHR 0x0A, CHR ''-'', CHR ''-'', CHR ''-'', CHR 0x0A, CHR 0x0A] docs)"

definition rag_retriever :: "vector_store \<Rightarrow> string \<Rightarrow> exn + string" where
  "rag_retriever store query =
     (case store of
        Inl e \<Rightarrow> Inl e
      | Inr invoke \<Rightarrow> Inr (retrieve invoke query))"

section \<open>The safety validator (app/agents/safety.py)\<close>

text \<open>
  The guard library and the RAIL file are outside the sources. What
  \<^verbatim>\<open>guard.parse\<close> hands back is a tuple, an object with a
  \<^verbatim>\<open>validated_output\<close> attribute, or some other object; the validated data
  either has a \<^verbatim>\<open>model_dump\<close> method (which raises or gives a dict) or is used
  as it is. The text of the AttributeError stands for Python's, which also names the
  class of the object.
\<close>

datatype pyobj = Model "exn + json" | Plain json

datatype validation = Tuple "pyobj list" | Outcome pyobj | Opaque

type_synonym guard = "string \<Rightarrow> exn + validation"

text \<open>\<^verbatim>\<open>SafetyCritic.__init__\<close>: a failure to load the RAIL file is re-raised as a RuntimeError.\<close>

definition SafetyCritic :: "exn + guard \<Rightarrow> exn + guard" where
  "SafetyCritic from_rail =
     (case from_rail of
        Inl e \<Rightarrow> Inl (Exn ''RuntimeError'' (''Failed to load RAIL file: '' @ exn_str e))
      | Inr g \<Rightarrow> Inr g)"

text \<open>The two dicts \<^verbatim>\<open>validate\<close> builds.\<close>

definition approved :: "json \<Rightarrow> dict" where
  "approved d =
     [(''status'', JStr ''APPROVED''), (''data'', d),
      (''log'', JStr ''Passed RAIL validation: Schema valid, PII sanitized.'')]"

definition rejected :: "string \<Rightarrow> dict" where
  "rejected why =
     [(''status'', JStr ''REJECTED''), (''reason'', JStr (''RAIL Safety Violation: '' @ why)),
      (''log'', JStr ''Rejection triggered by RAIL Guard.'')]"

text \<open>The body of the \<^verbatim>\<open>try\<close> block: every step may raise.\<close>

definition validate_try :: "guard \<Rightarrow> string \<Rightarrow> exn + dict" where
  "validate_try g master_agent_draft =
     (case g master_agent_draft of
        Inl e \<Rightarrow> Inl e
      | Inr validation \<Rightarrow>
          (case (case validation of
                   Tuple xs \<Rightarrow>
                     if 1 < length xs then Inr (xs ! 1)
                     else Inl (Exn ''IndexError'' ''tuple index out of range'')
                 | Outcome v \<Rightarrow> Inr v
                 | Opaque \<Rightarrow>
                     Inl (Exn ''AttributeError'' ''object has no attribute validated_output'')) of
             Inl e \<Rightarrow> Inl e
           | Inr validated_data \<Rightarrow>
               (case (case validated_data of
                        Model model_dump \<Rightarrow> model_dump
                      | Plain d \<Rightarrow> Inr d) of
                  Inl e \<Rightarrow> Inl e
                | Inr data_dict \<Rightarrow> Inr (approved data_dict))))"

text \<open>\<^verbatim>\<open>validate\<close>: the \<^verbatim>\<open>except Exception\<close> clause turns every exception of the body into a REJECTED dict.\<close>

definition validate :: "guard \<Rightarrow> string \<Rightarrow> exn + dict" where
  "validate g master_agent_draft =
     (case validate_try g master_agent_draft of
        Inr d \<Rightarrow> Inr d
      | Inl e \<Rightarrow> Inr (rejected (exn_str e)))"

section \<open>The workflow state and the nodes (app/agents/orchestrator.py)\<close>

text \<open>
  \<^verbatim>\<open>AgentState\<close> is a dict: \<^verbatim>\<open>messages\<close> and \<^verbatim>\<open>query\<close> are set when the
  run starts, every other key is absent until a node writes it.
\<close>

record agent_state =
  messages :: "string list"
  query :: string
  intent :: "string option"
  retrieved_context :: "string option"
  calculation_result :: "simulation_result option"
  draft_response :: "string option"
  safety_feedback :: "json option"
  is_safe :: "json option"
  retries :: "int option"

text \<open>A node returns a dict of the keys it writes; the graph merges it into the state.\<close>

datatype entry =
    Intent string
  | Retries int
  | Retrieved_context string
  | Calculation_result simulation_result
  | Draft_response string
  | Is_safe json
  | Safety_feedback json

fun write_entry :: "entry \<Rightarrow> agent_state \<Rightarrow> agent_state" where
  "write_entry (Intent v) s = s\<lparr>intent := Some v\<rparr>"
| "write_entry (Retries v) s = s\<lparr>retries := Some v\<rparr>"
| "write_entry (Retrieved_context v) s = s\<lparr>retrieved_context := Some v\<rparr>"
| "write_entry (Calculation_result v) s = s\<lparr>calculation_result := Some v\<rparr>"
| "write_entry (Draft_response v) s = s\<lparr>draft_response := Some v\<rparr>"
| "write_entry (Is_safe v) s = s\<lparr>is_safe := Some v\<rparr>"
| "write_entry (Safety_feedback v) s = s\<lparr>safety_feedback := Some v\<rparr>"

definition merge :: "agent_state \<Rightarrow> entry list \<Rightarrow> agent_state" where
  "merge s u = fold write_entry u s"

text \<open>
  \<^verbatim>\<open>state[key]\<close> on an absent key raises KeyError, whose text is the key in
  single quotes.
\<close>

definition getitem :: "string \<Rightarrow> 'a option \<Rightarrow> exn + 'a" where
  "getitem key field =
     (case field of
        None \<Rightarrow> Inl (Exn ''KeyError'' ([CHR 0x27] @ key @ [CHR 0x27]))
      | Some v \<Rightarrow> Inr v)"

text \<open>
  The language model client is outside the repository. Building it,
  \<^verbatim>\<open>ChatOpenAI(model="gpt-4o", temperature=0)\<close>, either raises (no credentials,
  say) or gives the client; \<^verbatim>\<open>llm.invoke(prompt)\<close> raises or returns the content
  of the response. The prompt is built from the query, the retrieved context and the
  simulation result (\<^verbatim>\<open>N/A\<close> for an absent one); the client is given these three.
\<close>

type_synonym llm = "string \<Rightarrow> string option \<Rightarrow> simulation_result option \<Rightarrow> exn + string"

text \<open>
  The collaborators of a run, and the one thing the graph library decides that the
  sources do not: whether the dict a conditional edge function receives is the live
  state (so that its assignments are seen by later nodes) or a copy.
\<close>

record env =
  vector_store :: vector_store
  ChatOpenAI :: "exn + llm"
  from_rail :: "exn + guard"
  edge_state_live :: bool

text \<open>The routing heuristic of \<^verbatim>\<open>node_planner\<close>.\<close>

definition planner_intent :: "string \<Rightarrow> string" where
  "planner_intent q =
     (if list_ex isdigit q
         \<and> (contains ''psi'' (lower q) \<or> contains ''m3'' (lower q))
      then ''calculation''
      else if contains ''safety'' (lower q) \<or> contains ''manual'' (lower q)
      then ''retrieval''
      else ''hybrid'')"

text \<open>
  \<^verbatim>\<open>node_planner\<close> builds a client it does not use; when that raises, the node
  raises, before the heuristic runs.
\<close>

definition node_planner :: "env \<Rightarrow> agent_state \<Rightarrow> exn + entry list" where
  "node_planner env state =
     (case ChatOpenAI env of
        Inl e \<Rightarrow> Inl e
      | Inr llm \<Rightarrow>
          Inr [Intent (planner_intent (query state)),
               Retries (case retries state of None \<Rightarrow> 0 | Some r \<Rightarrow> r)])"

definition node_retriever :: "env \<Rightarrow> agent_state \<Rightarrow> exn + entry list" where
  "node_retriever env state =
     (case rag_retriever (vector_store env) (query state) of
        Inl e \<Rightarrow> Inl e
      | Inr context \<Rightarrow> Inr [Retrieved_context context])"

definition node_simulator :: "agent_state \<Rightarrow> exn + entry list" where
  "node_simulator state =
     (case calc_pressure_flow 200 default_viscosity of
        Inl e \<Rightarrow> Inl e
      | Inr result \<Rightarrow> Inr [Calculation_result result])"

definition node_synthesizer :: "env \<Rightarrow> agent_state \<Rightarrow> exn + entry list" where
  "node_synthesizer env state =
     (case ChatOpenAI env of
        Inl e \<Rightarrow> Inl e
      | Inr llm \<Rightarrow>
          (case llm (query state) (retrieved_context state) (calculation_result state) of
             Inl e \<Rightarrow> Inl e
           | Inr content \<Rightarrow> Inr [Draft_response content]))"

text \<open>
  \<^verbatim>\<open>is_safe, feedback = SafetyCritic().validate(draft)\<close> unpacks the returned dict:
  iterating a dict gives its keys, and there must be exactly two of them.
\<close>

definition unpack2 :: "'a list \<Rightarrow> exn + ('a \<times> 'a)" where
  "unpack2 xs =
     (case xs of
        [a, b] \<Rightarrow> Inr (a, b)
      | [] \<Rightarrow> Inl (Exn ''ValueError'' ''not enough values to unpack (expected 2, got 0)'')
      | [a] \<Rightarrow> Inl (Exn ''ValueError'' ''not enough values to unpack (expected 2, got 1)'')
      | _ \<Rightarrow> Inl (Exn ''ValueError'' ''too many values to unpack (expected 2)''))"

definition node_critic :: "env \<Rightarrow> agent_state \<Rightarrow> exn + entry list" where
  "node_critic env state =
     (case getitem ''draft_response'' (draft_response state) of
        Inl e \<Rightarrow> Inl e
      | Inr draft \<Rightarrow>
          (case SafetyCritic (from_rail env) of
             Inl e \<Rightarrow> Inl e
           | Inr g \<Rightarrow>
               (case validate g draft of
                  Inl e \<Rightarrow> Inl e
                | Inr result \<Rightarrow>
                    (case unpack2 (map fst result) of
                       Inl e \<Rightarrow> Inl e
                     | Inr (safe, feedback) \<Rightarrow>
                         Inr [Is_safe (JStr safe), Safety_feedback (JStr feedback)]))))"

section \<open>The graph: edges, the run loop, the runner\<close>

definition decide_path :: "agent_state \<Rightarrow> exn + string" where
  "decide_path state =
     (case getitem ''intent'' (intent state) of
        Inl e \<Rightarrow> Inl e
      | Inr i \<Rightarrow>
          if i = ''retrieval'' then Inr ''retriever''
          else if i = ''calculation'' then Inr ''simulator''
          else Inr ''retriever'')"

text \<open>
  \<^verbatim>\<open>check_safety\<close> returns its label and assigns to the dict it was given:
  the second component is that dict afterwards.
\<close>

definition check_safety :: "agent_state \<Rightarrow> exn + (string \<times> agent_state)" where
  "check_safety state =
     (case getitem ''is_safe'' (is_safe state) of
        Inl e \<Rightarrow> Inl e
      | Inr safe \<Rightarrow>
          if truthy safe then Inr (''approved'', state)
          else
            (case getitem ''retries'' (retries state) of
               Inl e \<Rightarrow> Inl e
             | Inr r \<Rightarrow>
                 if r \<ge> 2 then Inr (''max_retries_exceeded'', state)
                 else Inr (''rejected'', state\<lparr>retries := Some (r + 1)\<rparr>)))"

datatype node = Planner | Retriever | Simulator | Synthesizer | Critic

text \<open>The path maps of the two conditional edges; \<open>None\<close> is \<^verbatim>\<open>END\<close>.\<close>

definition planner_paths :: "(string \<times> node option) list" where
  "planner_paths = [(''retriever'', Some Retriever), (''simulator'', Some Simulator)]"

definition critic_paths :: "(string \<times> node option) list" where
  "critic_paths =
     [(''approved'', None), (''rejected'', Some Planner), (''max_retries_exceeded'', None)]"

definition follow :: "(string \<times> node option) list \<Rightarrow> string \<Rightarrow> exn + node option" where
  "follow paths label =
     (case map_of paths label of
        None \<Rightarrow> Inl (Exn ''KeyError'' label)
      | Some target \<Rightarrow> Inr target)"

fun run_node :: "env \<Rightarrow> node \<Rightarrow> agent_state \<Rightarrow> exn + entry list" where
  "run_node env Planner s = node_planner env s"
| "run_node env Retriever s = node_retriever env s"
| "run_node env Simulator s = node_simulator s"
| "run_node env Synthesizer s = node_synthesizer env s"
| "run_node env Critic s = node_critic env s"

text \<open>The edge out of a node: where the run goes next, and the state it goes on with.\<close>

fun route :: "env \<Rightarrow> node \<Rightarrow> agent_state \<Rightarrow> exn + (node option \<times> agent_state)" where
  "route env Planner s =
     (case decide_path s of
        Inl e \<Rightarrow> Inl e
      | Inr label \<Rightarrow>
          (case follow planner_paths label of
             Inl e \<Rightarrow> Inl e
           | Inr target \<Rightarrow> Inr (target, s)))"
| "route env Retriever s = Inr (Some Synthesizer, s)"
| "route env Simulator s = Inr (Some Synthesizer, s)"
| "route env Synthesizer s = Inr (Some Critic, s)"
| "route env Critic s =
     (case check_safety s of
        Inl e \<Rightarrow> Inl e
      | Inr (label, s') \<Rightarrow>
          (case follow critic_paths label of
             Inl e \<Rightarrow> Inl e
           | Inr target \<Rightarrow> Inr (target, if edge_state_live env then s' else s)))"

text \<open>
  The run loop of the compiled graph. An exception raised in a node or an edge ends the
  run and reaches the caller. The library stops a run that has not reached
  \<^verbatim>\<open>END\<close> after \<^verbatim>\<open>recursion_limit\<close> steps (25 when the caller passes no
  configuration, as here) with a GraphRecursionError. The result comes with the list
  of the nodes that ran, in order.
\<close>

fun invoke_from :: "env \<Rightarrow> nat \<Rightarrow> node \<Rightarrow> agent_state \<Rightarrow> node list \<times> (exn + agent_state)" where
  "invoke_from env 0 n s =
     ([], Inl (Exn ''GraphRecursionError'' ''Recursion limit reached without hitting a stop condition''))"
| "invoke_from env (Suc k) n s =
     (case run_node env n s of
        Inl e \<Rightarrow> ([n], Inl e)
      | Inr u \<Rightarrow>
          (case route env n (merge s u) of
             Inl e \<Rightarrow> ([n], Inl e)
           | Inr (None, s') \<Rightarrow> ([n], Inr s')
           | Inr (Some n', s') \<Rightarrow>
               (case invoke_from env k n' s' of (tr, r) \<Rightarrow> (n # tr, r))))"

definition recursion_limit :: nat where
  "recursion_limit = 25"

definition app_graph_invoke :: "env \<Rightarrow> agent_state \<Rightarrow> node list \<times> (exn + agent_state)" where
  "app_graph_invoke env initial_state = invoke_from env recursion_limit Planner initial_state"

definition initial_state :: "string \<Rightarrow> agent_state" where
  "initial_state q =
     \<lparr>messages = [q], query = q, intent = None, retrieved_context = None,
      calculation_result = None, draft_response = None, safety_feedback = None,
      is_safe = None, retries = None\<rparr>"

definition format_output :: "agent_state \<Rightarrow> exn + dict" where
  "format_output final_state =
     (if (case is_safe final_state of None \<Rightarrow> False | Some v \<Rightarrow> truthy v) then
        (case getitem ''draft_response'' (draft_response final_state) of
           Inl e \<Rightarrow> Inl e
         | Inr d \<Rightarrow>
             Inr [(''status'', JStr ''SUCCESS''),
                  (''response'', JStr d),
                  (''audit_trail'', JArr (map JStr (messages final_state)))])
      else
        (case getitem ''safety_feedback'' (safety_feedback final_state) of
           Inl e \<Rightarrow> Inl e
         | Inr f \<Rightarrow>
             (case getitem ''draft_response'' (draft_response final_state) of
                Inl e \<Rightarrow> Inl e
              | Inr d \<Rightarrow>
                  Inr [(''status'', JStr ''BLOCKED_BY_SAFETY''),
                       (''reason'', f),
                       (''response'', JStr d)])))"

definition run_orchestrator :: "env \<Rightarrow> string \<Rightarrow> exn + dict" where
  "run_orchestrator env q =
     (case snd (app_graph_invoke env (initial_state q)) of
        Inl e \<Rightarrow> Inl e
      | Inr final_state \<Rightarrow> format_output final_state)"

text \<open>The nodes a run executes, in order (what the stream log shows).\<close>

definition run_trace :: "env \<Rightarrow> string \<Rightarrow> node list" where
  "run_trace env q = fst (app_graph_invoke env (initial_state q))"

section \<open>The request handler (main.py)\<close>

record query_request =
  request_query :: string
  user_id :: string

record query_response =
  response_status :: string
  response :: string
  audit_id :: string

datatype http_exception = HTTPException (status_code: nat) (detail: string)

text \<open>
  \<^verbatim>\<open>process_query\<close>: every exception of the run, and of building the response
  (its fields must be strings), becomes the same HTTP 500. The audit id is a fresh
  UUID, a parameter here.
\<close>

definition process_query :: "env \<Rightarrow> string \<Rightarrow> query_request \<Rightarrow> http_exception + query_response" where
  "process_query env new_uuid request =
     (case run_orchestrator env (request_query request) of
        Inl e \<Rightarrow> Inl (HTTPException 500 ''Internal Agent Error'')
      | Inr result \<Rightarrow>
          (case (map_of result ''status'', map_of result ''response'') of
             (Some (JStr st), Some (JStr r)) \<Rightarrow>
               Inr \<lparr>response_status = st, response = r, audit_id = new_uuid\<rparr>
           | _ \<Rightarrow> Inl (HTTPException 500 ''Internal Agent Error'')))"

section \<open>The guard's schema check\<close>

text \<open>
  Modelled from the spec: the RAIL file the guard is built from
  (app/guardrails/safety_spec.rail) and the guard library are not among the sources.
  The spec's words: the draft "parses as valid structured data conforming to the fixed
  schema" and "the enumerated risk field is one of a closed set of allowed values";
  "any field missing or mistyped is a schema violation"; parsing failures and schema
  violations are told apart in the reason. The fields and the closed set are those of
  \<^verbatim>\<open>EngineeringSafetyReport\<close> (app/schemas/safety.py). The parser of the draft text
  is a parameter.
\<close>

definition risk_levels :: "string list" where
  "risk_levels = [''LOW'', ''MEDIUM'', ''HIGH'']"

fun is_str :: "json \<Rightarrow> bool" where
  "is_str (JStr s) = True"
| "is_str j = False"

fun is_num :: "json \<Rightarrow> bool" where
  "is_num (JNum x) = True"
| "is_num j = False"

fun is_str_list :: "json \<Rightarrow> bool" where
  "is_str_list (JArr xs) = list_all is_str xs"
| "is_str_list j = False"

fun is_risk_level :: "json \<Rightarrow> bool" where
  "is_risk_level (JStr s) = (s \<in> set risk_levels)"
| "is_risk_level j = False"

definition field_ok :: "dict \<Rightarrow> string \<Rightarrow> (json \<Rightarrow> bool) \<Rightarrow> bool" where
  "field_ok kvs name ok = (case map_of kvs name of None \<Rightarrow> False | Some v \<Rightarrow> ok v)"

fun report_conforms :: "json \<Rightarrow> bool" where
  "report_conforms (JObj kvs) =
     (field_ok kvs ''decision_summary'' is_str
      \<and> field_ok kvs ''calculated_value'' is_num
      \<and> field_ok kvs ''unit'' is_str
      \<and> field_ok kvs ''risk_level'' is_risk_level
      \<and> field_ok kvs ''manual_references'' is_str_list)"
| "report_conforms j = False"

definition parse_failure :: exn where
  "parse_failure = Exn ''ValueError'' ''parse failure: the draft is not valid structured data''"

definition schema_violation :: exn where
  "schema_violation = Exn ''ValidationError'' ''schema violation: the report does not conform to the schema''"

definition rail_guard :: "(string \<Rightarrow> json option) \<Rightarrow> guard" where
  "rail_guard loads draft =
     (case loads draft of
        None \<Rightarrow> Inl parse_failure
      | Some j \<Rightarrow> if report_conforms j then Inr (Outcome (Plain j)) else Inl schema_violation)"

section \<open>Sample inputs\<close>

definition sample_report :: "string \<Rightarrow> json" where
  "sample_report risk =
     JObj [(''decision_summary'', JStr ''Abort operation immediately.''),
           (''calculated_value'', JNum 300),
           (''unit'', JStr ''PSI''),
           (''risk_level'', JStr risk),
           (''manual_references'', JArr [JStr ''Manual B p.99''])]"

definition sample_loads :: "string \<Rightarrow> json option" where
  "sample_loads draft =
     (if draft = ''high'' then Some (sample_report ''HIGH'')
      else if draft = ''critical'' then Some (sample_report ''CRITICAL'')
      else None)"

definition manual_query :: string where
  "manual_query = ''What is the maximum safe pressure per the manual?''"

definition flow_query :: string where
  "flow_query = ''Flow is 200 m3 at 850 psi, is this safe?''"

definition valve_query :: string where
  "valve_query = ''Why does the valve rattle?''"

definition plain_draft :: string where
  "plain_draft = ''The pressure looks okay, just go ahead and open the valve.''"

definition high_risk_report :: json where
  "high_risk_report =
     JObj [(''summary'', JStr ''Pressure exceeds maximum allowable limits.''),
           (''risk_level'', JStr ''HIGH''),
           (''recommended_action'', JStr ''IMMEDIATE SHUTDOWN required.''),
           (''is_safe'', JBool False)]"

definition low_risk_report :: json where
  "low_risk_report =
     JObj [(''summary'', JStr ''Pressure is within safe operating limits.''),
           (''risk_level'', JStr ''LOW''),
           (''recommended_action'', JStr ''Proceed with standard monitoring.''),
           (''is_safe'', JBool True)]"

definition report_text :: string where
  "report_text = ''{summary: ..., risk_level: ..., recommended_action: ..., is_safe: ...}''"

definition manual_store :: vector_store where
  "manual_store = Inr (\<lambda>q. Inr [''Section 4.2: relief valves open at 1200 PSI.''])"

definition rejecting_env :: env where
  "rejecting_env =
     \<lparr>vector_store = manual_store,
      ChatOpenAI = Inr (\<lambda>q c r. Inr plain_draft),
      from_rail = Inr (\<lambda>d. Inl (Exn ''ValueError'' ''draft is not valid JSON'')),
      edge_state_live = True\<rparr>"

definition approving_env :: "json \<Rightarrow> env" where
  "approving_env report =
     \<lparr>vector_store = manual_store,
      ChatOpenAI = Inr (\<lambda>q c r. Inr report_text),
      from_rail = Inr (\<lambda>d. Inr (Outcome (Plain report))),
      edge_state_live = True\<rparr>"

section \<open>Passes of a run\<close>


text \<open>
  What the classification step and the edge after it give on a state: the intent written
  to the state and the node the run goes to next.
\<close>

definition planner_step :: "env \<Rightarrow> agent_state \<Rightarrow> exn + (string option \<times> node option)" where
  "planner_step env s =
     (case node_planner env s of
        Inl e \<Rightarrow> Inl e
      | Inr u \<Rightarrow>
          (case route env Planner (merge s u) of
             Inl e \<Rightarrow> Inl e
           | Inr (target, s') \<Rightarrow> Inr (intent s', target)))"

section \<open>Sample states and collaborators\<close>



text \<open>The state before the critic of a run on \<open>manual_query\<close> whose draft is \<open>report_text\<close>.\<close>

definition drafted_state :: agent_state where
  "drafted_state =
     \<lparr>messages = [manual_query], query = manual_query, intent = Some ''retrieval'',
      retrieved_context = Some ''Section 4.2: relief valves open at 1200 PSI.'',
      calculation_result = None, draft_response = Some report_text, safety_feedback = None,
      is_safe = None, retries = Some 0\<rparr>"

definition unreachable_store_env :: env where
  "unreachable_store_env =
     \<lparr>vector_store = Inl (Exn ''ConnectionError'' ''vector store unreachable''),
      ChatOpenAI = Inr (\<lambda>q c r. Inr plain_draft),
      from_rail = Inr (\<lambda>d. Inl (Exn ''ValueError'' ''draft is not valid JSON'')),
      edge_state_live = True\<rparr>"

definition llm_down_env :: env where
  "llm_down_env =
     \<lparr>vector_store = manual_store,
      ChatOpenAI = Inr (\<lambda>q c r. Inl (Exn ''APITimeoutError'' ''Request timed out.'')),
      from_rail = Inr (\<lambda>d. Inl (Exn ''ValueError'' ''draft is not valid JSON'')),
      edge_state_live = True\<rparr>"

definition no_credentials_env :: env where
  "no_credentials_env =
     \<lparr>vector_store = manual_store,
      ChatOpenAI = Inl (Exn ''OpenAIError'' ''The api_key client option must be set''),
      from_rail = Inr (\<lambda>d. Inl (Exn ''ValueError'' ''draft is not valid JSON'')),
      edge_state_live = True\<rparr>"

definition engineer_request :: "string \<Rightarrow> query_request" where
  "engineer_request q = \<lparr>request_query = q, user_id = ''engineer_01''\<rparr>"

definition too_many_values :: exn where
  "too_many_values = Exn ''ValueError'' ''too many values to unpack (expected 2)''"

section \<open>Auxiliary facts\<close>


lemma validate_three_keys:
  "\<exists>a b c. validate g draft = Inr [a, b, c]"
  by (auto simp: validate_def validate_try_def approved_def rejected_def split: sum.splits)

lemma unpack2_three: "\<exists>e. unpack2 [a, b, c] = Inl e"
  by (simp add: unpack2_def)

lemma node_critic_raises: "\<exists>e. node_critic env s = Inl e"
proof -
  have "\<exists>e. unpack2 (map fst r) = Inl e" if "validate g d = Inr r" for g d r
    using validate_three_keys[of g d] that by (auto simp: unpack2_def)
  then show ?thesis
    by (fastforce simp: node_critic_def split: sum.splits)
qed

lemma follow_planner_paths:
  "follow planner_paths l = Inr t \<Longrightarrow> t \<noteq> None"
  by (auto simp: follow_def planner_paths_def split: if_splits option.splits)

lemma route_not_END:
  "n \<noteq> Critic \<Longrightarrow> route env n s = Inr (t, s') \<Longrightarrow> t \<noteq> None"
  by (cases n) (auto split: sum.splits dest: follow_planner_paths)

lemma invoke_from_raises: "\<exists>e. snd (invoke_from env k n s) = Inl e"
proof (induction k arbitrary: n s)
  case 0 show ?case by simp
next
  case (Suc k)
  show ?case
  proof (cases "n = Critic")
    case True
    then show ?thesis using node_critic_raises[of env s] by auto
  next
    case False
    show ?thesis
    proof (cases "run_node env n s")
      case (Inl e) then show ?thesis by simp
    next
      case (Inr u)
      show ?thesis
      proof (cases "route env n (merge s u)")
        case (Inl e) with Inr show ?thesis by simp
      next
        case r: (Inr p)
        obtain t s' where p: "p = (t, s')" by (cases p)
        from r p False have "t \<noteq> None" using route_not_END[of n env "merge s u" t s'] by simp
        then obtain n' where "t = Some n'" by auto
        with Inr r p Suc.IH[of n' s'] show ?thesis by (auto split: prod.splits)
      qed
    qed
  qed
qed

lemma run_orchestrator_raises: "\<exists>e. run_orchestrator env q = Inl e"
  using invoke_from_raises[of env recursion_limit Planner "initial_state q"]
  by (auto simp: run_orchestrator_def app_graph_invoke_def)

lemma process_query_500:
  "process_query env uuid request = Inl (HTTPException 500 ''Internal Agent Error'')"
  using run_orchestrator_raises[of env "request_query request"]
  by (auto simp: process_query_def)

lemma manual_query_intent: "planner_intent manual_query = ''retrieval''"
  unfolding manual_query_def by code_simp

lemma flow_query_intent: "planner_intent flow_query = ''calculation''"
  unfolding flow_query_def by code_simp

lemma valve_query_intent: "planner_intent valve_query = ''hybrid''"
  unfolding valve_query_def by code_simp

lemma validate_cases:
  "validate g draft =
     (case g draft of
        Inl e \<Rightarrow> Inr (rejected (exn_str e))
      | Inr (Outcome (Plain d)) \<Rightarrow> Inr (approved d)
      | Inr (Outcome (Model (Inr d))) \<Rightarrow> Inr (approved d)
      | Inr (Outcome (Model (Inl e))) \<Rightarrow> Inr (rejected (exn_str e))
      | Inr (Tuple xs) \<Rightarrow>
          if 1 < length xs then
            (case xs ! 1 of
               Plain d \<Rightarrow> Inr (approved d)
             | Model (Inr d) \<Rightarrow> Inr (approved d)
             | Model (Inl e) \<Rightarrow> Inr (rejected (exn_str e)))
          else Inr (rejected ''tuple index out of range'')
      | Inr Opaque \<Rightarrow> Inr (rejected ''object has no attribute validated_output''))"
  by (simp add: validate_def validate_try_def
      split: sum.splits validation.splits pyobj.splits)


lemmas graph_defs =
  run_trace_def run_orchestrator_def app_graph_invoke_def recursion_limit_def initial_state_def
  eval_nat_numeral node_planner_def merge_def decide_path_def getitem_def follow_def
  planner_paths_def critic_paths_def node_retriever_def rag_retriever_def retrieve_def
  node_synthesizer_def node_critic_def SafetyCritic_def validate_def validate_try_def
  approved_def rejected_def unpack2_def

lemma query_write_entry: "query (write_entry x s) = query s"
  by (cases x) simp_all

lemma query_merge: "query (merge s u) = query s"
  unfolding merge_def by (induction u arbitrary: s) (simp_all add: query_write_entry)



lemma planner_step_eq:
  "planner_step env s =
     (case ChatOpenAI env of
        Inl e \<Rightarrow> Inl e
      | Inr llm \<Rightarrow>
          Inr (Some (planner_intent (query s)),
               Some (if planner_intent (query s) = ''calculation'' then Simulator
                     else Retriever)))"
  by (simp add: planner_step_def node_planner_def merge_def decide_path_def getitem_def
      follow_def planner_paths_def planner_intent_def split: sum.splits)




lemma check_safety_bound:
  "check_safety s = Inr (l, s') \<Longrightarrow> retries s = Some r \<Longrightarrow> r \<le> 2 \<Longrightarrow>
     \<exists>r'. retries s' = Some r' \<and> r' \<le> 2"
  by (auto simp: check_safety_def getitem_def split: option.splits if_splits)


lemma route_no_simulator:
  assumes "run_node env n s = Inr u" and "route env n (merge s u) = Inr (Some n', s')"
    and "planner_intent (query s) \<noteq> ''calculation''"
  shows "n' \<noteq> Simulator \<and> query s' = query s"
proof (cases n)
  case Planner
  with assms show ?thesis
    by (auto simp: node_planner_def merge_def decide_path_def getitem_def follow_def
        planner_paths_def split: if_splits sum.splits)
next
  case Critic
  with assms(1) node_critic_raises [of env s] show ?thesis by auto
qed (use assms in \<open>auto simp: query_merge\<close>)

lemma no_simulator:
  "planner_intent (query s) \<noteq> ''calculation'' \<Longrightarrow> n \<noteq> Simulator \<Longrightarrow>
     Simulator \<notin> set (fst (invoke_from env k n s))"
proof (induction k arbitrary: n s)
  case 0 then show ?case by simp
next
  case (Suc k)
  show ?case
  proof (cases "run_node env n s")
    case (Inl e) with Suc.prems show ?thesis by simp
  next
    case u: (Inr u)
    show ?thesis
    proof (cases "route env n (merge s u)")
      case (Inl e) with u Suc.prems show ?thesis by simp
    next
      case r: (Inr p)
      obtain t s' where p: "p = (t, s')" by (cases p)
      show ?thesis
      proof (cases t)
        case None with u r p Suc.prems show ?thesis by simp
      next
        case (Some n')
        with u r p Suc.prems have "n' \<noteq> Simulator" "query s' = query s"
          using route_no_simulator [of env n s u n' s'] by auto
        with Suc.prems have "Simulator \<notin> set (fst (invoke_from env k n' s'))"
          using Suc.IH [of s' n'] by simp
        with u r p Some Suc.prems show ?thesis by (auto split: prod.splits)
      qed
    qed
  qed
qed

lemma planner_then_retriever:
  "ChatOpenAI env = Inr llm \<Longrightarrow> planner_intent (query s) \<noteq> ''calculation'' \<Longrightarrow>
     take 2 (fst (invoke_from env (Suc (Suc k)) Planner s)) = [Planner, Retriever]"
  by (simp add: node_planner_def merge_def decide_path_def getitem_def follow_def
      planner_paths_def planner_intent_def split: sum.splits prod.splits option.splits)

lemma calc_default_ok: "\<exists>res. calc_pressure_flow 200 default_viscosity = Inr res"
proof -
  define v :: real where "v = 200 / (pi * (0.1 / 2) ^ 2 * 3600)"
  have "pi * (0.1 / 2) ^ 2 * 3600 = 9 * pi" by (simp add: power2_eq_square)
  then have v9: "v = 200 / (9 * pi)" unfolding v_def by (simp only:)
  have "200 / (9 * pi) \<le> 200 / (9 * 2)"
    using pi_ge_two by (intro divide_left_mono) auto
  with v9 have v: "v \<le> 16" by simp
  have v0: "0 \<le> v" unfolding v9 by simp
  from v v0 have "v ^ 2 \<le> 16 ^ 2" by (rule power_mono)
  moreover have "(16::real) ^ 2 \<le> float_max"
  proof -
    have "(2::real) ^ 8 \<le> 2 ^ 1023" by (rule power_increasing) simp_all
    moreover have "(1::real) \<le> 2 - 1 / 2 ^ 52" by simp
    ultimately have "(2::real) ^ 8 * 1 \<le> 2 ^ 1023 * (2 - 1 / 2 ^ 52)"
      by (intro mult_mono) simp_all
    then show ?thesis by (simp add: float_max_def mult.commute)
  qed
  ultimately have "\<not> v ^ 2 > float_max" by simp
  then show ?thesis
    unfolding v_def by (simp add: calc_pressure_flow_def Let_def)
qed

lemma format_output_status:
  "format_output fs = Inr d \<Longrightarrow>
     (map_of d ''status'' = Some (JStr ''SUCCESS'')
        \<and> map_of d ''response'' = map_option JStr (draft_response fs))
     \<or> (map_of d ''status'' = Some (JStr ''BLOCKED_BY_SAFETY'')
        \<and> map_of d ''reason'' = safety_feedback fs
        \<and> map_of d ''response'' = map_option JStr (draft_response fs))"
  by (auto simp: format_output_def getitem_def split: if_splits option.splits)


section \<open>The retry loop\<close>

text \<open>
  C1. A run ends within three synthesize/validate passes in APPROVED or EXCEEDED, its
  retry counter going up by one at each safety rejection and never beyond 2. On the code
  a rejection does not reach the retry edge: \<^verbatim>\<open>validate\<close> returns a dict of three
  keys, \<^verbatim>\<open>node_critic\<close> unpacks it into two names and raises ValueError, and the
  run ends there after one pass, whether or not the edge function sees the live state.
\<close>

theorem rejection_aborts_run:
  "validate (\<lambda>d. Inl (Exn ''ValueError'' ''draft is not valid JSON'')) plain_draft
     = Inr (rejected ''draft is not valid JSON'')
   \<and> run_trace rejecting_env manual_query = [Planner, Retriever, Synthesizer, Critic]
   \<and> run_orchestrator rejecting_env manual_query = Inl too_many_values
   \<and> run_trace (rejecting_env\<lparr>edge_state_live := False\<rparr>) manual_query
       = [Planner, Retriever, Synthesizer, Critic]
   \<and> run_orchestrator (rejecting_env\<lparr>edge_state_live := False\<rparr>) manual_query
       = Inl too_many_values"
  by (simp add: graph_defs rejected_def manual_query_intent rejecting_env_def manual_store_def
      too_many_values_def)

section \<open>Where \<^verbatim>\<open>is_safe\<close> comes from\<close>

text \<open>
  C2. The state's \<^verbatim>\<open>is_safe\<close> is computed from a field of the approved report. On
  the code nothing is computed from the report: for an approved report that marks itself
  unsafe and for one that marks itself safe alike, \<^verbatim>\<open>node_critic\<close> raises
  ValueError before \<^verbatim>\<open>is_safe\<close> is written.
\<close>

theorem critic_ignores_report_field:
  "validate (\<lambda>d. Inr (Outcome (Plain high_risk_report))) report_text
     = Inr (approved high_risk_report)
   \<and> map_of (approved high_risk_report) ''data'' = Some high_risk_report
   \<and> node_critic (approving_env high_risk_report) drafted_state = Inl too_many_values
   \<and> node_critic (approving_env low_risk_report) drafted_state = Inl too_many_values"
  by (simp add: graph_defs approved_def approving_env_def drafted_state_def too_many_values_def)

section \<open>The safety validator's outcomes\<close>

text \<open>
  C3. \<^verbatim>\<open>SafetyCritic.validate\<close> never raises and returns one of two dicts, for
  every guard and every draft: the APPROVED dict carrying the validated data, or the
  REJECTED dict whose reason ends with the text of the exception that was caught. With
  the guard of the spec, a draft that parses to a report conforming to the schema (risk
  HIGH included) is approved with that report as data, an unparseable draft is rejected
  with the parse-failure reason, and a parsed draft that violates the schema is rejected
  with the schema-violation reason; the reason returned for an unparseable draft is not
  the reason returned for a schema violation.
\<close>

theorem validate_outcomes:
  "((\<exists>d. validate g draft = Inr 
          [(''status'', JStr ''APPROVED''), (''data'', d),
            (''log'', JStr ''Passed RAIL validation: Schema valid, PII sanitized.'')])
      \<or> (\<exists>why. validate g draft = Inr 
          [(''status'', JStr ''REJECTED''),
            (''reason'', JStr (''RAIL Safety Violation: '' @ why)),
            (''log'', JStr ''Rejection triggered by RAIL Guard.'')]))
   \<and> (g draft = Inl e \<longrightarrow> validate g draft = Inr 
          [(''status'', JStr ''REJECTED''),
            (''reason'', JStr (''RAIL Safety Violation: '' @ exn_str e)),
            (''log'', JStr ''Rejection triggered by RAIL Guard.'')])
   \<and> (loads draft = Some j \<and> report_conforms j \<longrightarrow>
        validate (rail_guard loads) draft = Inr 
          [(''status'', JStr ''APPROVED''), (''data'', j),
            (''log'', JStr ''Passed RAIL validation: Schema valid, PII sanitized.'')])
   \<and> (loads draft = None \<longrightarrow>
        validate (rail_guard loads) draft = Inr 
          [(''status'', JStr ''REJECTED''),
            (''reason'', JStr (''RAIL Safety Violation: '' @ exn_str parse_failure)),
            (''log'', JStr ''Rejection triggered by RAIL Guard.'')])
   \<and> (loads draft = Some j \<and> \<not> report_conforms j \<longrightarrow>
        validate (rail_guard loads) draft = Inr 
          [(''status'', JStr ''REJECTED''),
            (''reason'', JStr (''RAIL Safety Violation: '' @ exn_str schema_violation)),
            (''log'', JStr ''Rejection triggered by RAIL Guard.'')])
   \<and> (\<forall>d1 d2. loads draft = None \<and> loads draft' = Some j' \<and> \<not> report_conforms j'
          \<and> validate (rail_guard loads) draft = Inr d1
          \<and> validate (rail_guard loads) draft' = Inr d2 \<longrightarrow>
        map_of d1 ''reason'' \<noteq> map_of d2 ''reason'')"
proof -
  have total: "(\<exists>d. validate g draft = Inr 
          [(''status'', JStr ''APPROVED''), (''data'', d),
            (''log'', JStr ''Passed RAIL validation: Schema valid, PII sanitized.'')])
      \<or> (\<exists>why. validate g draft = Inr 
          [(''status'', JStr ''REJECTED''),
            (''reason'', JStr (''RAIL Safety Violation: '' @ why)),
            (''log'', JStr ''Rejection triggered by RAIL Guard.'')])"
    by (auto simp: validate_cases approved_def rejected_def
        split: sum.splits validation.splits pyobj.splits)
  have raised: "g draft = Inl e \<longrightarrow> validate g draft = Inr 
          [(''status'', JStr ''REJECTED''),
            (''reason'', JStr (''RAIL Safety Violation: '' @ exn_str e)),
            (''log'', JStr ''Rejection triggered by RAIL Guard.'')]"
    by (simp add: validate_cases rejected_def)
  have ok: "loads draft = Some j \<and> report_conforms j \<longrightarrow>
        validate (rail_guard loads) draft = Inr 
          [(''status'', JStr ''APPROVED''), (''data'', j),
            (''log'', JStr ''Passed RAIL validation: Schema valid, PII sanitized.'')]"
    by (simp add: validate_cases rail_guard_def approved_def)
  have unparseable: "loads d = None \<longrightarrow>
        validate (rail_guard loads) d = Inr 
          [(''status'', JStr ''REJECTED''),
            (''reason'', JStr (''RAIL Safety Violation: '' @ exn_str parse_failure)),
            (''log'', JStr ''Rejection triggered by RAIL Guard.'')]" for d
    by (simp add: validate_cases rail_guard_def rejected_def)
  have violation: "loads d = Some k \<and> \<not> report_conforms k \<longrightarrow>
        validate (rail_guard loads) d = Inr 
          [(''status'', JStr ''REJECTED''),
            (''reason'', JStr (''RAIL Safety Violation: '' @ exn_str schema_violation)),
            (''log'', JStr ''Rejection triggered by RAIL Guard.'')]" for d k
    by (simp add: validate_cases rail_guard_def rejected_def)
  have differ: "\<forall>d1 d2. loads draft = None \<and> loads draft' = Some j' \<and> \<not> report_conforms j'
          \<and> validate (rail_guard loads) draft = Inr d1
          \<and> validate (rail_guard loads) draft' = Inr d2 \<longrightarrow>
        map_of d1 ''reason'' \<noteq> map_of d2 ''reason''"
    using unparseable [of draft] violation [of draft' j']
    by (auto simp: parse_failure_def schema_violation_def)
  from total raised ok unparseable [of draft] violation [of draft j] differ
  show ?thesis by blast
qed

theorem validate_outcomes_witness:
  "report_conforms (sample_report ''HIGH'')
   \<and> validate (rail_guard sample_loads) ''high'' = Inr 
          [(''status'', JStr ''APPROVED''), (''data'', sample_report ''HIGH''),
            (''log'', JStr ''Passed RAIL validation: Schema valid, PII sanitized.'')]
   \<and> validate (rail_guard sample_loads) ''open the valve'' = Inr 
          [(''status'', JStr ''REJECTED''),
            (''reason'', JStr (''RAIL Safety Violation: '' @ exn_str parse_failure)),
            (''log'', JStr ''Rejection triggered by RAIL Guard.'')]
   \<and> \<not> report_conforms (sample_report ''CRITICAL'')
   \<and> validate (rail_guard sample_loads) ''critical'' = Inr 
          [(''status'', JStr ''REJECTED''),
            (''reason'', JStr (''RAIL Safety Violation: '' @ exn_str schema_violation)),
            (''log'', JStr ''Rejection triggered by RAIL Guard.'')]
   \<and> validate (\<lambda>d. Inl (Exn ''TypeError'' ''boom'')) ''x'' = Inr 
          [(''status'', JStr ''REJECTED''),
            (''reason'', JStr (''RAIL Safety Violation: '' @ ''boom'')),
            (''log'', JStr ''Rejection triggered by RAIL Guard.'')]
   \<and> map_of (projr (validate (rail_guard sample_loads) ''open the valve'')) ''reason''
       \<noteq> map_of (projr (validate (rail_guard sample_loads) ''critical'')) ''reason''"
proof -
  have c1: "report_conforms (sample_report ''HIGH'')"
    by (simp add: sample_report_def field_ok_def risk_levels_def)
  have c2: "\<not> report_conforms (sample_report ''CRITICAL'')"
    by (simp add: sample_report_def field_ok_def risk_levels_def)
  have l1: "sample_loads ''high'' = Some (sample_report ''HIGH'')"
    by (simp add: sample_loads_def)
  have l2: "sample_loads ''open the valve'' = None"
    by (simp add: sample_loads_def)
  have l3: "sample_loads ''critical'' = Some (sample_report ''CRITICAL'')"
    by (simp add: sample_loads_def)
  have a: "validate (\<lambda>d. Inl (Exn ''TypeError'' ''boom'')) ''x'' = Inr 
          [(''status'', JStr ''REJECTED''),
            (''reason'', JStr (''RAIL Safety Violation: '' @ ''boom'')),
            (''log'', JStr ''Rejection triggered by RAIL Guard.'')]"
    using validate_outcomes [of "\<lambda>d. Inl (Exn ''TypeError'' ''boom'')" "''x''"
        "Exn ''TypeError'' ''boom''" sample_loads "sample_report ''HIGH''" "''x''" JNull]
    by simp
  have b: "validate (rail_guard sample_loads) ''high'' = Inr 
          [(''status'', JStr ''APPROVED''), (''data'', sample_report ''HIGH''),
            (''log'', JStr ''Passed RAIL validation: Schema valid, PII sanitized.'')]"
    using c1 l1 validate_outcomes [of "rail_guard sample_loads" "''high''" parse_failure
        sample_loads "sample_report ''HIGH''" "''x''" JNull]
    by simp
  have c: "validate (rail_guard sample_loads) ''open the valve'' = Inr 
          [(''status'', JStr ''REJECTED''),
            (''reason'', JStr (''RAIL Safety Violation: '' @ exn_str parse_failure)),
            (''log'', JStr ''Rejection triggered by RAIL Guard.'')]
     \<and> (\<forall>d1 d2. validate (rail_guard sample_loads) ''open the valve'' = Inr d1
          \<and> validate (rail_guard sample_loads) ''critical'' = Inr d2 \<longrightarrow>
        map_of d1 ''reason'' \<noteq> map_of d2 ''reason'')"
    using c2 l2 l3 validate_outcomes [of "rail_guard sample_loads" "''open the valve''"
        parse_failure sample_loads "sample_report ''HIGH''" "''critical''"
        "sample_report ''CRITICAL''"]
    by simp
  have d: "validate (rail_guard sample_loads) ''critical'' = Inr 
          [(''status'', JStr ''REJECTED''),
            (''reason'', JStr (''RAIL Safety Violation: '' @ exn_str schema_violation)),
            (''log'', JStr ''Rejection triggered by RAIL Guard.'')]"
    using c2 l3 validate_outcomes [of "rail_guard sample_loads" "''critical''" parse_failure
        sample_loads "sample_report ''CRITICAL''" "''x''" JNull]
    by simp
  from c d have e:
    "map_of (projr (validate (rail_guard sample_loads) ''open the valve'')) ''reason''
       \<noteq> map_of (projr (validate (rail_guard sample_loads) ''critical'')) ''reason''"
    by (simp add: parse_failure_def schema_violation_def)
  from c1 c2 a b c d e show ?thesis by blast
qed

section \<open>The terminal results of a run\<close>

text \<open>
  C4. \<^verbatim>\<open>run_orchestrator\<close> returns a SUCCESS result or a BLOCKED_BY_SAFETY result.
  On the code a run whose draft the validator approves returns neither: the critic node
  raises, the exception leaves \<^verbatim>\<open>run_orchestrator\<close>, and the request handler
  answers HTTP 500.
\<close>

theorem run_yields_no_result:
  "run_trace (approving_env low_risk_report) manual_query
     = [Planner, Retriever, Synthesizer, Critic]
   \<and> run_orchestrator (approving_env low_risk_report) manual_query = Inl too_many_values
   \<and> process_query (approving_env low_risk_report) ''audit-1'' (engineer_request manual_query)
       = Inl (HTTPException 500 ''Internal Agent Error'')"
  by (simp add: graph_defs process_query_def engineer_request_def manual_query_intent
      approving_env_def manual_store_def too_many_values_def)

section \<open>Classification\<close>



section \<open>Routing of hybrid queries\<close>

text \<open>
  C6. On every pass on which the classified intent is hybrid, the router sends the run
  to the retrieval branch: \<^verbatim>\<open>decide_path\<close> answers \<^verbatim>\<open>retriever\<close>; when the
  planner returns (its client could be built), the node after it is the retriever; and
  the simulator is not run, from any state with that query and for any number of steps,
  in particular in a run on that query.
\<close>

theorem hybrid_takes_retrieval_branch:
  assumes "planner_intent (query s) = ''hybrid''"
  shows "decide_path (s\<lparr>intent := Some ''hybrid''\<rparr>) = Inr ''retriever''
    \<and> (ChatOpenAI env = Inr llm \<longrightarrow>
         planner_step env s = Inr (Some ''hybrid'', Some Retriever)
         \<and> take 2 (fst (invoke_from env (Suc (Suc k)) Planner s)) = [Planner, Retriever])
    \<and> Simulator \<notin> set (fst (invoke_from env j Planner s))
    \<and> (s = initial_state q \<longrightarrow>
         Simulator \<notin> set (run_trace env q)
         \<and> (ChatOpenAI env = Inr llm \<longrightarrow> take 2 (run_trace env q) = [Planner, Retriever]))"
proof -
  from assms have nc: "planner_intent (query s) \<noteq> ''calculation''" by simp
  have a: "decide_path (s\<lparr>intent := Some ''hybrid''\<rparr>) = Inr ''retriever''"
    by (simp add: decide_path_def getitem_def)
  have b: "planner_step env s = Inr (Some ''hybrid'', Some Retriever)"
    if "ChatOpenAI env = Inr llm"
    using assms that by (simp add: planner_step_eq)
  have c: "take 2 (fst (invoke_from env (Suc (Suc k)) Planner s)) = [Planner, Retriever]"
    if "ChatOpenAI env = Inr llm" for k
    using that nc by (rule planner_then_retriever)
  have d: "Simulator \<notin> set (fst (invoke_from env j Planner s))" for j
    using nc by (simp add: no_simulator)
  have e: "Simulator \<notin> set (run_trace env q)" if "s = initial_state q"
    using d [of 25] that
    by (simp add: run_trace_def app_graph_invoke_def recursion_limit_def)
  have f: "take 2 (run_trace env q) = [Planner, Retriever]"
    if "s = initial_state q" "ChatOpenAI env = Inr llm"
    using c [of 23] that
    by (simp add: run_trace_def app_graph_invoke_def recursion_limit_def eval_nat_numeral)
  from a b c d e f show ?thesis by blast
qed

theorem hybrid_takes_retrieval_branch_witness:
  "planner_intent (query (initial_state valve_query)) = ''hybrid''
   \<and> planner_step rejecting_env (initial_state valve_query)
       = Inr (Some ''hybrid'', Some Retriever)
   \<and> take 2 (run_trace rejecting_env valve_query) = [Planner, Retriever]
   \<and> Simulator \<notin> set (run_trace rejecting_env valve_query)
   \<and> run_trace rejecting_env valve_query = [Planner, Retriever, Synthesizer, Critic]"
proof -
  have h: "planner_intent (query (initial_state valve_query)) = ''hybrid''"
    by (simp add: initial_state_def valve_query_intent)
  have l: "ChatOpenAI rejecting_env = Inr (\<lambda>q c r. Inr plain_draft)"
    by (simp add: rejecting_env_def)
  have t: "run_trace rejecting_env valve_query = [Planner, Retriever, Synthesizer, Critic]"
    by (simp add: graph_defs valve_query_intent rejecting_env_def manual_store_def)
  show ?thesis
    using h l t
      hybrid_takes_retrieval_branch [OF h, of rejecting_env "\<lambda>q c r. Inr plain_draft" 0 0
        valve_query]
    by simp
qed

section \<open>The calculation engine on a negative flow rate\<close>

text \<open>
  C7. For every flow rate below 0 and every viscosity, \<^verbatim>\<open>calc_pressure_flow\<close>
  returns (it does not raise) the record with status ERROR, estimated pressure 0.0 and
  the flow rate it was given.
\<close>

theorem calc_pressure_flow_negative:
  "flow_rate < 0 \<Longrightarrow>
     calc_pressure_flow flow_rate viscosity =
       Inr \<lparr>input_flow_rate = flow_rate, estimated_pressure_psi = 0.0, status = ''ERROR'',
            warning = Some ''Flow rate cannot be negative.''\<rparr>"
  by (simp add: calc_pressure_flow_def)

theorem calc_pressure_flow_negative_witness:
  "(- 5 :: real) < 0
   \<and> calc_pressure_flow (- 5) 0.9 =
       Inr \<lparr>input_flow_rate = - 5, estimated_pressure_psi = 0.0, status = ''ERROR'',
            warning = Some ''Flow rate cannot be negative.''\<rparr>"
  using calc_pressure_flow_negative [of "- 5" "0.9"] by simp

section \<open>Exceptions of collaborators\<close>

text \<open>
  C8, as stated: an exception of a collaborator reaches the caller as a
  CollaboratorFailure that carries the stage. The code has no such wrapper: when the
  vector store cannot be reached, the caller of \<^verbatim>\<open>run_orchestrator\<close> gets the
  ConnectionError itself, and the caller of \<^verbatim>\<open>process_query\<close> an HTTP 500 that
  names no stage.
\<close>

theorem collaborator_failure_not_wrapped:
  "run_orchestrator unreachable_store_env manual_query
     = Inl (Exn ''ConnectionError'' ''vector store unreachable'')
   \<and> \<not> (\<exists>e. run_orchestrator unreachable_store_env manual_query = Inl e
            \<and> exn_class e = ''CollaboratorFailure'')
   \<and> process_query unreachable_store_env ''audit-1'' (engineer_request manual_query)
       = Inl (HTTPException 500 ''Internal Agent Error'')"
  by (simp add: graph_defs process_query_def engineer_request_def manual_query_intent
      unreachable_store_env_def)


text \<open>
  C8, amended. An exception raised in a node is not caught by the run loop: the run ends
  at that node, with no later node run and no retry, and \<^verbatim>\<open>run_orchestrator\<close>
  raises the very exception the collaborator raised: the language model client when the
  planner builds it, the knowledge lookup, or the synthesizer's call of the model on
  either branch. \<^verbatim>\<open>process_query\<close> turns it into HTTP 500 "Internal Agent Error".
\<close>

theorem collaborator_exception_propagates:
  "(run_node env n s = Inl e \<longrightarrow> invoke_from env (Suc k) n s = ([n], Inl e))
   \<and> (ChatOpenAI env = Inl e \<longrightarrow>
        run_trace env q = [Planner]
        \<and> run_orchestrator env q = Inl e
        \<and> process_query env uuid \<lparr>request_query = q, user_id = uid\<rparr>
            = Inl (HTTPException 500 ''Internal Agent Error''))
   \<and> (ChatOpenAI env = Inr llm \<and> vector_store env = Inl e
        \<and> planner_intent q \<noteq> ''calculation'' \<longrightarrow>
        run_trace env q = [Planner, Retriever]
        \<and> run_orchestrator env q = Inl e
        \<and> process_query env uuid \<lparr>request_query = q, user_id = uid\<rparr>
            = Inl (HTTPException 500 ''Internal Agent Error''))
   \<and> (ChatOpenAI env = Inr llm \<and> vector_store env = Inr search
        \<and> planner_intent q \<noteq> ''calculation''
        \<and> llm q (Some (retrieve search q)) None = Inl e \<longrightarrow>
        run_trace env q = [Planner, Retriever, Synthesizer]
        \<and> run_orchestrator env q = Inl e
        \<and> process_query env uuid \<lparr>request_query = q, user_id = uid\<rparr>
            = Inl (HTTPException 500 ''Internal Agent Error''))
   \<and> (ChatOpenAI env = Inr llm \<and> planner_intent q = ''calculation''
        \<and> calc_pressure_flow 200 default_viscosity = Inr res
        \<and> llm q None (Some res) = Inl e \<longrightarrow>
        run_trace env q = [Planner, Simulator, Synthesizer]
        \<and> run_orchestrator env q = Inl e
        \<and> process_query env uuid \<lparr>request_query = q, user_id = uid\<rparr>
            = Inl (HTTPException 500 ''Internal Agent Error''))"
proof -
  have a: "run_node env n s = Inl e \<longrightarrow> invoke_from env (Suc k) n s = ([n], Inl e)"
    by simp
  have z: "run_trace env q = [Planner] \<and> run_orchestrator env q = Inl e"
    if "ChatOpenAI env = Inl e"
    using that
    by (simp add: run_trace_def run_orchestrator_def app_graph_invoke_def recursion_limit_def
        eval_nat_numeral node_planner_def)
  have b: "run_trace env q = [Planner, Retriever] \<and> run_orchestrator env q = Inl e"
    if "ChatOpenAI env = Inr llm" "vector_store env = Inl e"
      "planner_intent q \<noteq> ''calculation''"
    using that
    by (simp add: run_trace_def run_orchestrator_def app_graph_invoke_def recursion_limit_def
        initial_state_def eval_nat_numeral node_planner_def merge_def decide_path_def
        getitem_def follow_def planner_paths_def node_retriever_def rag_retriever_def)
  have c: "run_trace env q = [Planner, Retriever, Synthesizer] \<and> run_orchestrator env q = Inl e"
    if "ChatOpenAI env = Inr llm" "vector_store env = Inr search"
      "planner_intent q \<noteq> ''calculation''"
      "llm q (Some (retrieve search q)) None = Inl e"
    using that
    by (simp add: run_trace_def run_orchestrator_def app_graph_invoke_def recursion_limit_def
        initial_state_def eval_nat_numeral node_planner_def merge_def decide_path_def
        getitem_def follow_def planner_paths_def node_retriever_def rag_retriever_def
        node_synthesizer_def)
  have d: "run_trace env q = [Planner, Simulator, Synthesizer] \<and> run_orchestrator env q = Inl e"
    if "ChatOpenAI env = Inr llm" "planner_intent q = ''calculation''"
      "calc_pressure_flow 200 default_viscosity = Inr res"
      "llm q None (Some res) = Inl e"
    using that
    by (simp add: run_trace_def run_orchestrator_def app_graph_invoke_def recursion_limit_def
        initial_state_def eval_nat_numeral node_planner_def merge_def decide_path_def
        getitem_def follow_def planner_paths_def node_simulator_def
        node_synthesizer_def)
  have p: "process_query env uuid \<lparr>request_query = q, user_id = uid\<rparr>
            = Inl (HTTPException 500 ''Internal Agent Error'')"
    if "run_orchestrator env q = Inl e"
    using that by (simp add: process_query_def)
  from a z b c d p show ?thesis by blast
qed

theorem collaborator_exception_propagates_witness:
  "run_trace no_credentials_env manual_query = [Planner]
   \<and> run_orchestrator no_credentials_env manual_query
       = Inl (Exn ''OpenAIError'' ''The api_key client option must be set'')
   \<and> run_trace unreachable_store_env manual_query = [Planner, Retriever]
   \<and> run_orchestrator unreachable_store_env manual_query
       = Inl (Exn ''ConnectionError'' ''vector store unreachable'')
   \<and> run_trace llm_down_env manual_query = [Planner, Retriever, Synthesizer]
   \<and> run_orchestrator llm_down_env manual_query
       = Inl (Exn ''APITimeoutError'' ''Request timed out.'')
   \<and> (\<exists>res. calc_pressure_flow 200 default_viscosity = Inr res
        \<and> run_trace llm_down_env flow_query = [Planner, Simulator, Synthesizer])
   \<and> invoke_from llm_down_env 1 Synthesizer (initial_state manual_query)
       = ([Synthesizer], Inl (Exn ''APITimeoutError'' ''Request timed out.''))"
proof -
  obtain res where res: "calc_pressure_flow 200 default_viscosity = Inr res"
    using calc_default_ok by blast
  have k0: "ChatOpenAI no_credentials_env
      = Inl (Exn ''OpenAIError'' ''The api_key client option must be set'')"
    by (simp add: no_credentials_env_def)
  have k1: "ChatOpenAI unreachable_store_env = Inr (\<lambda>q c r. Inr plain_draft)"
    by (simp add: unreachable_store_env_def)
  have k2: "ChatOpenAI llm_down_env
      = Inr (\<lambda>q c r. Inl (Exn ''APITimeoutError'' ''Request timed out.''))"
    by (simp add: llm_down_env_def)
  have s1: "vector_store unreachable_store_env
      = Inl (Exn ''ConnectionError'' ''vector store unreachable'')"
    by (simp add: unreachable_store_env_def)
  have s2: "vector_store llm_down_env
      = Inr (\<lambda>q. Inr [''Section 4.2: relief valves open at 1200 PSI.''])"
    by (simp add: llm_down_env_def manual_store_def)
  have n: "run_node llm_down_env Synthesizer (initial_state manual_query)
      = Inl (Exn ''APITimeoutError'' ''Request timed out.'')"
    by (simp add: node_synthesizer_def k2)
  have m: "planner_intent manual_query \<noteq> ''calculation''"
    by (simp add: manual_query_intent)
  have w0: "run_trace no_credentials_env manual_query = [Planner]
   \<and> run_orchestrator no_credentials_env manual_query
       = Inl (Exn ''OpenAIError'' ''The api_key client option must be set'')"
    using k0 collaborator_exception_propagates [of no_credentials_env Planner
        "initial_state manual_query"
        "Exn ''OpenAIError'' ''The api_key client option must be set''" 0 manual_query
        "''id''" "''u''" "\<lambda>q c r. Inr plain_draft" "\<lambda>q. Inr []" res]
    by simp
  have w1: "run_trace unreachable_store_env manual_query = [Planner, Retriever]
   \<and> run_orchestrator unreachable_store_env manual_query
       = Inl (Exn ''ConnectionError'' ''vector store unreachable'')"
    using k1 s1 m collaborator_exception_propagates [of unreachable_store_env Planner
        "initial_state manual_query"
        "Exn ''ConnectionError'' ''vector store unreachable''" 0 manual_query
        "''id''" "''u''" "\<lambda>q c r. Inr plain_draft" "\<lambda>q. Inr []" res]
    by simp
  have w2: "run_trace llm_down_env manual_query = [Planner, Retriever, Synthesizer]
   \<and> run_orchestrator llm_down_env manual_query
       = Inl (Exn ''APITimeoutError'' ''Request timed out.'')
   \<and> invoke_from llm_down_env 1 Synthesizer (initial_state manual_query)
       = ([Synthesizer], Inl (Exn ''APITimeoutError'' ''Request timed out.''))"
    using k2 s2 m n collaborator_exception_propagates [of llm_down_env Synthesizer
        "initial_state manual_query"
        "Exn ''APITimeoutError'' ''Request timed out.''" 0 manual_query
        "''id''" "''u''" "\<lambda>q c r. Inl (Exn ''APITimeoutError'' ''Request timed out.'')"
        "\<lambda>q. Inr [''Section 4.2: relief valves open at 1200 PSI.'']" res]
    by simp
  have w3: "run_trace llm_down_env flow_query = [Planner, Simulator, Synthesizer]"
    using k2 res flow_query_intent collaborator_exception_propagates [of llm_down_env
        Synthesizer "initial_state manual_query"
        "Exn ''APITimeoutError'' ''Request timed out.''" 0 flow_query
        "''id''" "''u''" "\<lambda>q c r. Inl (Exn ''APITimeoutError'' ''Request timed out.'')"
        "\<lambda>q. Inr []" res]
    by simp
  from w0 w1 w2 w3 res show ?thesis by blast
qed

section \<open>Stability of the intent\<close>



section \<open>The classification step and the retry counter\<close>



end
